theory Spec2Isabelle
  imports Complex_Main
begin

section \<open>Strings\<close>

text \<open>
  A Python \<^verbatim>\<open>str\<close> is a sequence of Unicode code points, so it is modelled as a list
  of natural numbers.  \<open>str\<close> turns an ASCII literal into such a list; code points
  beyond ASCII (the emoji of the rating tables) are written as numbers.
\<close>

type_synonym pystr = "nat list"

definition str :: "string \<Rightarrow> pystr" where
  "str s = map of_char s"

text \<open>
  The code points for which \<^verbatim>\<open>str.isspace\<close> holds.  \<^verbatim>\<open>str.strip()\<close> removes exactly
  these from both ends, and \<^verbatim>\<open>\s\<close> of a \<^verbatim>\<open>str\<close> pattern matches exactly these.
\<close>

definition isspace :: "nat \<Rightarrow> bool" where
  "isspace c \<longleftrightarrow>
     (9 \<le> c \<and> c \<le> 13) \<or> (28 \<le> c \<and> c \<le> 32) \<or> c = 133 \<or> c = 160 \<or> c = 5760 \<or>
     (8192 \<le> c \<and> c \<le> 8202) \<or> c = 8232 \<or> c = 8233 \<or> c = 8239 \<or> c = 8287 \<or>
     c = 12288"

definition strip :: "pystr \<Rightarrow> pystr" where
  "strip s = rev (dropWhile isspace (rev (dropWhile isspace s)))"

text \<open>\<^verbatim>\<open>key in s\<close> for two strings: \<open>key\<close> occurs in \<open>s\<close> as a contiguous run.\<close>

fun starts_with :: "pystr \<Rightarrow> pystr \<Rightarrow> bool" where
  "starts_with [] s = True"
| "starts_with (k # ks) [] = False"
| "starts_with (k # ks) (c # cs) = (k = c \<and> starts_with ks cs)"

fun contains :: "pystr \<Rightarrow> pystr \<Rightarrow> bool" where
  "contains key [] = (key = [])"
| "contains key (c # cs) = (starts_with key (c # cs) \<or> contains key cs)"

section \<open>Rating symbols: \<^verbatim>\<open>emoji_to_num\<close>\<close>

text \<open>
  The two tables are Python dict literals; iteration follows insertion order, so they
  are association lists in the order of the source.
\<close>

definition fam_map :: "(pystr \<times> int) list" where
  "fam_map =
    [(127942 # str '' Profissional'', 5), ([127942], 5),
     (128170 # str '' Confiante'', 4), ([128170], 4),
     (128218 # str '' Familiar'', 3), ([128218], 3),
     (127793 # str '' Iniciante'', 2), ([127793], 2),
     (10067 # str '' Desconhecida'', 1), ([10067], 1)]"

definition int_map :: "(pystr \<times> int) list" where
  "int_map = [([11088], 5), ([128293], 4), ([128077], 3), ([128528], 2), ([129335], 1)]"

text \<open>
  \<^verbatim>\<open>for key in m: if key in emoji_str: return m[key]\<close>: the value of the first key, in
  table order, that occurs in the string.
\<close>

fun first_contained :: "(pystr \<times> int) list \<Rightarrow> pystr \<Rightarrow> int option" where
  "first_contained [] s = None"
| "first_contained ((k, v) # m) s = (if contains k s then Some v else first_contained m s)"

text \<open>
  The argument is a cell of a row: \<open>None\<close> is Python's \<^verbatim>\<open>None\<close>.  Both \<^verbatim>\<open>None\<close> and
  the empty string are falsy and give 0 at once.
\<close>

definition emoji_to_num :: "pystr option \<Rightarrow> int" where
  "emoji_to_num emoji_str =
     (case emoji_str of
        None \<Rightarrow> 0
      | Some raw \<Rightarrow>
          if raw = [] then 0
          else
            let s = strip raw in
            (case map_of fam_map s of
               Some v \<Rightarrow> v
             | None \<Rightarrow>
                (case map_of int_map s of
                   Some v \<Rightarrow> v
                 | None \<Rightarrow>
                    (case first_contained fam_map s of
                       Some v \<Rightarrow> v
                     | None \<Rightarrow>
                        (case first_contained int_map s of
                           Some v \<Rightarrow> v
                         | None \<Rightarrow> 0)))))"

section \<open>The relation parser: \<^verbatim>\<open>parse_relations\<close>\<close>

text \<open>
  The scanning loop, with its three variables \<^verbatim>\<open>targets\<close>, \<^verbatim>\<open>current\<close> and
  \<^verbatim>\<open>paren_depth\<close> as accumulators.  40, 41 and 44 are the code points of the opening
  parenthesis, the closing parenthesis and the comma.  The depth is a Python integer
  and goes below zero on an unmatched closing parenthesis.  The equation for the empty
  rest is the code after the loop.
\<close>

fun split_targets :: "pystr list \<Rightarrow> pystr \<Rightarrow> int \<Rightarrow> pystr \<Rightarrow> pystr list" where
  "split_targets targets current paren_depth [] =
     (if strip current \<noteq> [] then targets @ [strip current] else targets)"
| "split_targets targets current paren_depth (c # cs) =
     (if c = 40 then split_targets targets (current @ [c]) (paren_depth + 1) cs
      else if c = 41 then split_targets targets (current @ [c]) (paren_depth - 1) cs
      else if c = 44 \<and> paren_depth = 0 then
        split_targets (if strip current \<noteq> [] then targets @ [strip current] else targets)
          [] paren_depth cs
      else split_targets targets (current @ [c]) paren_depth cs)"

text \<open>
  The regular expression \<^verbatim>\<open>\s+\([^()]*%.*?\.(csv|md)\)\s*$\<close> with \<^verbatim>\<open>re.DOTALL\<close>, as a
  backtracking matcher, one function for each part of the pattern, each deciding
  whether the part and everything after it match the whole remaining string:
  \<^item> \<open>ext_tail\<close>: \<^verbatim>\<open>\.(csv|md)\)\s*$\<close>;
  \<^item> \<open>lazy_tail\<close>: \<^verbatim>\<open>.*?\<close> and then \<open>ext_tail\<close> (with \<^verbatim>\<open>DOTALL\<close> the dot matches every
    character);
  \<^item> \<open>annot_body\<close>: \<^verbatim>\<open>[^()]*%\<close> and then \<open>lazy_tail\<close> (37 is the percent sign);
  \<^item> \<open>after_ws\<close>: the rest of \<^verbatim>\<open>\s+\<close>, then \<^verbatim>\<open>\(\<close> and \<open>annot_body\<close>;
  \<^item> \<open>annotation\<close>: the whole pattern.

  Since \<^verbatim>\<open>\s*\<close> takes all trailing whitespace, a match always ends at the end of the
  string, so \<^verbatim>\<open>re.sub\<close> with the empty replacement keeps the text before the leftmost
  position at which the pattern matches.
\<close>

definition ext_tail :: "pystr \<Rightarrow> bool" where
  "ext_tail t \<longleftrightarrow>
     (take 5 t = str ''.csv)'' \<and> list_all isspace (drop 5 t)) \<or>
     (take 4 t = str ''.md)'' \<and> list_all isspace (drop 4 t))"

fun lazy_tail :: "pystr \<Rightarrow> bool" where
  "lazy_tail [] = ext_tail []"
| "lazy_tail (c # cs) = (ext_tail (c # cs) \<or> lazy_tail cs)"

fun annot_body :: "pystr \<Rightarrow> bool" where
  "annot_body [] = False"
| "annot_body (c # cs) =
     (if c = 37 then lazy_tail cs \<or> annot_body cs
      else if c = 40 \<or> c = 41 then False
      else annot_body cs)"

fun after_ws :: "pystr \<Rightarrow> bool" where
  "after_ws [] = False"
| "after_ws (c # cs) = (if isspace c then after_ws cs else c = 40 \<and> annot_body cs)"

fun annotation :: "pystr \<Rightarrow> bool" where
  "annotation [] = False"
| "annotation (c # cs) = (isspace c \<and> after_ws cs)"

fun re_sub_annotation :: "pystr \<Rightarrow> pystr" where
  "re_sub_annotation [] = []"
| "re_sub_annotation (c # cs) =
     (if annotation (c # cs) then [] else c # re_sub_annotation cs)"

text \<open>The cleaning loop: strip the annotation, strip again, keep what is not empty.\<close>

fun clean_targets :: "pystr list \<Rightarrow> pystr list" where
  "clean_targets [] = []"
| "clean_targets (target # targets) =
     (let clean_name = strip (re_sub_annotation target) in
      if clean_name \<noteq> [] then clean_name # clean_targets targets
      else clean_targets targets)"

definition parse_relations :: "pystr \<Rightarrow> pystr list" where
  "parse_relations raw_str = clean_targets (split_targets [] [] 0 raw_str)"

section \<open>The graph loader: \<^verbatim>\<open>load_network\<close>\<close>

subsection \<open>Data\<close>

datatype error = FileNotFoundError | AttributeError | ValueError | ZeroDivisionError

text \<open>
  A node is the dict built for a row.  The three raw ratings are cells of the row and
  can be \<^verbatim>\<open>None\<close>.  The scores and the position are Python floats, modelled as reals
  (exact arithmetic, no rounding).  \<^verbatim>\<open>req_direct\<close> and \<^verbatim>\<open>dep_direct\<close> are added to every
  node at the end of \<^verbatim>\<open>load_network\<close>; until then the fields hold 0.
\<close>

record node =
  name :: pystr
  familiarity :: "pystr option"
  familiarity_num :: int
  interest :: "pystr option"
  interest_num :: int
  market :: "pystr option"
  market_num :: int
  req_score :: real
  master_score :: real
  req_indirect :: real
  dep_indirect :: real
  x :: real
  y :: real
  z :: real
  req_direct :: int
  dep_direct :: int

record edge =
  source :: pystr
  target :: pystr

text \<open>
  A Python dict keeps its keys in insertion order and an assignment to an existing key
  keeps the key's place: an association list with \<open>dict_set\<close> as assignment and
  \<^const>\<open>map_of\<close> as lookup.
\<close>

fun dict_set :: "('k \<times> 'v) list \<Rightarrow> 'k \<Rightarrow> 'v \<Rightarrow> ('k \<times> 'v) list" where
  "dict_set [] k v = [(k, v)]"
| "dict_set ((k', v') # d) k v =
     (if k' = k then (k, v) # d else (k', v') # dict_set d k v)"

text \<open>
  The input file, as \<^verbatim>\<open>csv.reader\<close> delivers it: the header record and the data
  records, each a list of cells.  \<^verbatim>\<open>csv.DictReader\<close> skips empty records and turns each
  other one into a dict over the field names; a record shorter than the header gets
  \<^verbatim>\<open>None\<close> (the default \<^verbatim>\<open>restval\<close>) for each missing field, and the cells beyond the
  header go under the key \<^verbatim>\<open>None\<close>, which no column key equals.
\<close>

record csv_file =
  fieldnames :: "pystr list"
  records :: "pystr list list"

type_synonym row = "(pystr \<times> pystr option) list"

definition dict_row :: "pystr list \<Rightarrow> pystr list \<Rightarrow> row" where
  "dict_row header cells =
     fold (\<lambda>(k, v) d. dict_set d k v)
       (zip header (map Some cells @ replicate (length header - length cells) None)) []"

definition dict_reader :: "csv_file \<Rightarrow> row list" where
  "dict_reader f = map (dict_row (fieldnames f)) (filter (\<lambda>cells. cells \<noteq> []) (records f))"

text \<open>\<^verbatim>\<open>row.get(key, '')\<close>: the default only when the key is absent.\<close>

definition get_cell :: "row \<Rightarrow> pystr \<Rightarrow> pystr option" where
  "get_cell row key = (case map_of row key of None \<Rightarrow> Some [] | Some v \<Rightarrow> v)"

text \<open>
  The column keys found in the header (lines 73 to 115 of the source).  The search
  rests on \<^verbatim>\<open>unicodedata\<close>, so its result is an input here.  A key that is \<^verbatim>\<open>None\<close> or
  empty is falsy: \<open>usable\<close> is the test \<^verbatim>\<open>if key\<close>.
\<close>

record columns =
  name_key :: "pystr option"
  deps_key :: "pystr option"
  reqs_key :: "pystr option"
  fam_key :: "pystr option"
  int_key :: "pystr option"
  mkt_key :: "pystr option"
  req_score_key :: "pystr option"
  master_score_key :: "pystr option"
  req_indirect_key :: "pystr option"
  dep_indirect_key :: "pystr option"

definition usable :: "pystr option \<Rightarrow> pystr option" where
  "usable key = (case key of None \<Rightarrow> None | Some k \<Rightarrow> if k = [] then None else Some k)"

subsection \<open>First pass: the rows\<close>

text \<open>
  \<^verbatim>\<open>row.get(key, '').strip() if key else ''\<close>.  \<^verbatim>\<open>strip\<close> is a method of \<^verbatim>\<open>str\<close>; on
  \<^verbatim>\<open>None\<close> the attribute lookup raises \<^verbatim>\<open>AttributeError\<close>.
\<close>

definition stripped_cell :: "pystr option \<Rightarrow> row \<Rightarrow> error + pystr" where
  "stripped_cell key row =
     (case usable key of
        None \<Rightarrow> Inr []
      | Some k \<Rightarrow> (case get_cell row k of None \<Rightarrow> Inl AttributeError | Some s \<Rightarrow> Inr (strip s)))"

text \<open>\<^verbatim>\<open>row.get(key, '') if key else ''\<close>, for the three rating columns.\<close>

definition raw_cell :: "pystr option \<Rightarrow> row \<Rightarrow> pystr option" where
  "raw_cell key row = (case usable key of None \<Rightarrow> Some [] | Some k \<Rightarrow> get_cell row k)"

text \<open>
  A score: 0 unless the column exists, and then \<^verbatim>\<open>float(row.get(key, 0) or 0)\<close>, with
  \<^verbatim>\<open>ValueError\<close> and \<^verbatim>\<open>TypeError\<close> caught and the 0 kept.  \<open>pyfloat\<close> is Python's
  \<^verbatim>\<open>float\<close> on strings, \<open>None\<close> where it raises \<^verbatim>\<open>ValueError\<close>.
\<close>

definition score_cell :: "(pystr \<Rightarrow> real option) \<Rightarrow> pystr option \<Rightarrow> row \<Rightarrow> real" where
  "score_cell pyfloat key row =
     (case usable key of
        None \<Rightarrow> 0
      | Some k \<Rightarrow>
         (case map_of row k of
            None \<Rightarrow> 0
          | Some None \<Rightarrow> 0
          | Some (Some s) \<Rightarrow>
              if s = [] then 0 else (case pyfloat s of None \<Rightarrow> 0 | Some v \<Rightarrow> v)))"

text \<open>
  The state of the loop over the rows: the three dicts, and the number of calls of
  \<^verbatim>\<open>random.uniform\<close> made so far.  \<open>uniform k\<close> is the value the call number \<open>k\<close> returns.
\<close>

record lstate =
  nodes :: "(pystr \<times> node) list"
  temp_dependencies :: "(pystr \<times> pystr) list"
  temp_requirements :: "(pystr \<times> pystr) list"
  draws :: nat

definition new_node ::
  "columns \<Rightarrow> (pystr \<Rightarrow> real option) \<Rightarrow> (nat \<Rightarrow> real) \<Rightarrow> nat \<Rightarrow> pystr \<Rightarrow> row \<Rightarrow> node" where
  "new_node cols pyfloat uniform k nm row =
     \<lparr>name = nm,
      familiarity = raw_cell (fam_key cols) row,
      familiarity_num = emoji_to_num (raw_cell (fam_key cols) row),
      interest = raw_cell (int_key cols) row,
      interest_num = emoji_to_num (raw_cell (int_key cols) row),
      market = raw_cell (mkt_key cols) row,
      market_num = emoji_to_num (raw_cell (mkt_key cols) row),
      req_score = score_cell pyfloat (req_score_key cols) row,
      master_score = score_cell pyfloat (master_score_key cols) row,
      req_indirect = score_cell pyfloat (req_indirect_key cols) row,
      dep_indirect = score_cell pyfloat (dep_indirect_key cols) row,
      x = uniform k, y = uniform (k + 1), z = uniform (k + 2),
      req_direct = 0, dep_direct = 0\<rparr>"

text \<open>
  \<^verbatim>\<open>if key: raw = row.get(key, '').strip(); if raw: temp[name] = raw\<close>, for the
  depends-on and the required-by column.
\<close>

definition store_relation ::
  "pystr option \<Rightarrow> row \<Rightarrow> pystr \<Rightarrow> (pystr \<times> pystr) list \<Rightarrow> error + (pystr \<times> pystr) list" where
  "store_relation key row nm temp =
     (case stripped_cell key row of
        Inl e \<Rightarrow> Inl e
      | Inr raw \<Rightarrow> Inr (if raw \<noteq> [] then dict_set temp nm raw else temp))"

definition load_row ::
  "columns \<Rightarrow> (pystr \<Rightarrow> real option) \<Rightarrow> (nat \<Rightarrow> real) \<Rightarrow> lstate \<Rightarrow> row \<Rightarrow> error + lstate" where
  "load_row cols pyfloat uniform st row =
     (case stripped_cell (name_key cols) row of
        Inl e \<Rightarrow> Inl e
      | Inr nm \<Rightarrow>
          if nm = [] then Inr st
          else
            (case store_relation (deps_key cols) row nm (temp_dependencies st) of
               Inl e \<Rightarrow> Inl e
             | Inr deps \<Rightarrow>
                (case store_relation (reqs_key cols) row nm (temp_requirements st) of
                   Inl e \<Rightarrow> Inl e
                 | Inr reqs \<Rightarrow>
                     Inr \<lparr>nodes = dict_set (nodes st) nm
                                    (new_node cols pyfloat uniform (draws st) nm row),
                          temp_dependencies = deps,
                          temp_requirements = reqs,
                          draws = draws st + 3\<rparr>)))"

fun load_rows ::
  "columns \<Rightarrow> (pystr \<Rightarrow> real option) \<Rightarrow> (nat \<Rightarrow> real) \<Rightarrow> lstate \<Rightarrow> row list \<Rightarrow> error + lstate" where
  "load_rows cols pyfloat uniform st [] = Inr st"
| "load_rows cols pyfloat uniform st (row # rows) =
     (case load_row cols pyfloat uniform st row of
        Inl e \<Rightarrow> Inl e
      | Inr st' \<Rightarrow> load_rows cols pyfloat uniform st' rows)"

subsection \<open>Second pass: the edges\<close>

text \<open>\<^verbatim>\<open>target_name in nodes\<close>.\<close>

definition in_nodes :: "pystr \<Rightarrow> (pystr \<times> node) list \<Rightarrow> bool" where
  "in_nodes nm ns \<longleftrightarrow> map_of ns nm \<noteq> None"

text \<open>
  The inner loop of the depends-on pass: each target found among the nodes appends the
  edge from the target to the node of the cell.  Nothing is looked up in \<open>edges\<close>.
\<close>

fun dependency_targets ::
  "(pystr \<times> node) list \<Rightarrow> pystr \<Rightarrow> pystr list \<Rightarrow> edge list \<Rightarrow> edge list" where
  "dependency_targets ns source_name [] edges = edges"
| "dependency_targets ns source_name (target_name # targets) edges =
     dependency_targets ns source_name targets
       (if in_nodes target_name ns
        then edges @ [\<lparr>source = target_name, target = source_name\<rparr>]
        else edges)"

fun process_dependencies ::
  "(pystr \<times> node) list \<Rightarrow> (pystr \<times> pystr) list \<Rightarrow> edge list \<Rightarrow> edge list" where
  "process_dependencies ns [] edges = edges"
| "process_dependencies ns ((source_name, deps_raw) # temp) edges =
     process_dependencies ns temp
       (dependency_targets ns source_name (parse_relations deps_raw) edges)"

text \<open>
  The inner loop of the required-by pass: each target found among the nodes appends
  the edge from the node of the cell to the target, unless \<open>edges\<close> has that edge.
\<close>

fun requirement_targets ::
  "(pystr \<times> node) list \<Rightarrow> pystr \<Rightarrow> pystr list \<Rightarrow> edge list \<Rightarrow> edge list" where
  "requirement_targets ns source_name [] edges = edges"
| "requirement_targets ns source_name (target_name # targets) edges =
     requirement_targets ns source_name targets
       (if in_nodes target_name ns
        then (if \<not> list_ex (\<lambda>e. source e = source_name \<and> target e = target_name) edges
              then edges @ [\<lparr>source = source_name, target = target_name\<rparr>]
              else edges)
        else edges)"

fun process_requirements ::
  "(pystr \<times> node) list \<Rightarrow> (pystr \<times> pystr) list \<Rightarrow> edge list \<Rightarrow> edge list" where
  "process_requirements ns [] edges = edges"
| "process_requirements ns ((source_name, reqs_raw) # temp) edges =
     process_requirements ns temp
       (requirement_targets ns source_name (parse_relations reqs_raw) edges)"

definition build_edges :: "lstate \<Rightarrow> edge list" where
  "build_edges st =
     process_requirements (nodes st) (temp_requirements st)
       (process_dependencies (nodes st) (temp_dependencies st) [])"

subsection \<open>Direct counts and the result\<close>

definition count_direct :: "edge list \<Rightarrow> node \<Rightarrow> node" where
  "count_direct edges n =
     n\<lparr>req_direct := int (length (filter (\<lambda>e. source e = name n) edges)),
       dep_direct := int (length (filter (\<lambda>e. target e = name n) edges))\<rparr>"

definition empty_state :: lstate where
  "empty_state = \<lparr>nodes = [], temp_dependencies = [], temp_requirements = [], draws = 0\<rparr>"

text \<open>
  The file is \<open>None\<close> when \<^verbatim>\<open>os.path.exists\<close> is false.  An exception raised in the loop
  over the rows leaves \<^verbatim>\<open>load_network\<close>: nothing in it catches \<^verbatim>\<open>AttributeError\<close>.
\<close>

definition load_network ::
  "columns \<Rightarrow> (pystr \<Rightarrow> real option) \<Rightarrow> (nat \<Rightarrow> real) \<Rightarrow> csv_file option \<Rightarrow>
     error + node list \<times> edge list" where
  "load_network cols pyfloat uniform file =
     (case file of
        None \<Rightarrow> Inl FileNotFoundError
      | Some f \<Rightarrow>
         (case load_rows cols pyfloat uniform empty_state (dict_reader f) of
            Inl e \<Rightarrow> Inl e
          | Inr st \<Rightarrow>
              Inr (map (count_direct (build_edges st)) (map snd (nodes st)), build_edges st)))"

section \<open>The layout engine: \<^verbatim>\<open>apply_layout\<close>\<close>

definition ITERATIONS :: nat where
  "ITERATIONS = 100"

definition SPRING_LENGTH :: real where
  "SPRING_LENGTH = 3"

definition REPULSION_STRENGTH :: real where
  "REPULSION_STRENGTH = 50"

text \<open>
  The inner loop of the repulsion pass: the force on \<open>n1\<close>, the node at index \<open>i\<close>, summed
  over the nodes at the other indices \<open>j\<close>.  The positions are read as they are when the
  loop runs; \<open>n1\<close> moves only after it.
\<close>

fun repulsion_force ::
  "node \<Rightarrow> nat \<Rightarrow> nat \<Rightarrow> node list \<Rightarrow> real \<times> real \<times> real \<Rightarrow> real \<times> real \<times> real" where
  "repulsion_force n1 i j [] f = f"
| "repulsion_force n1 i j (n2 # ns) f =
     repulsion_force n1 i (Suc j) ns
       (if i = j then f
        else
          (case f of
             (fx, fy, fz) \<Rightarrow>
               let dx = x n1 - x n2;
                   dy = y n1 - y n2;
                   dz = z n1 - z n2;
                   dist = sqrt (dx * dx + dy * dy + dz * dz) + 0.1;
                   force = REPULSION_STRENGTH / (dist * dist)
               in (fx + (dx / dist) * force, fy + (dy / dist) * force,
                   fz + (dz / dist) * force)))"

text \<open>
  One round of the outer loop: the node at index \<open>i\<close> moves, in place, so the nodes
  after it see its new position.
\<close>

definition repulse_node :: "nat \<Rightarrow> node list \<Rightarrow> node list" where
  "repulse_node i ns =
     (case repulsion_force (ns ! i) i 0 ns (0, 0, 0) of
        (fx, fy, fz) \<Rightarrow>
          ns[i := (ns ! i)\<lparr>x := x (ns ! i) + fx * 0.01,
                          y := y (ns ! i) + fy * 0.01,
                          z := z (ns ! i) + fz * 0.01\<rparr>])"

definition repulsion_pass :: "node list \<Rightarrow> node list" where
  "repulsion_pass ns = fold repulse_node [0..<length ns] ns"

text \<open>
  \<^verbatim>\<open>next((n for n in nodes if n['name'] == nm), None)\<close>: the first node of that name, by
  its index.
\<close>

fun find_node :: "pystr \<Rightarrow> node list \<Rightarrow> nat option" where
  "find_node nm [] = None"
| "find_node nm (n # ns) =
     (if name n = nm then Some 0 else map_option Suc (find_node nm ns))"

text \<open>
  The spring step of one edge.  An edge with an end that is not in the list is skipped.
  The source moves first and the target is read after that, which matters when both
  are the same node.
\<close>

definition spring_edge :: "edge \<Rightarrow> node list \<Rightarrow> node list" where
  "spring_edge e ns =
     (case find_node (source e) ns of
        None \<Rightarrow> ns
      | Some s \<Rightarrow>
         (case find_node (target e) ns of
            None \<Rightarrow> ns
          | Some t \<Rightarrow>
              let dx = x (ns ! t) - x (ns ! s);
                  dy = y (ns ! t) - y (ns ! s);
                  dz = z (ns ! t) - z (ns ! s);
                  dist = sqrt (dx * dx + dy * dy + dz * dz) + 0.1;
                  force = (dist - SPRING_LENGTH) * 0.1;
                  fx = (dx / dist) * force;
                  fy = (dy / dist) * force;
                  fz = (dz / dist) * force;
                  ns1 = ns[s := (ns ! s)\<lparr>x := x (ns ! s) + fx,
                                          y := y (ns ! s) + fy,
                                          z := z (ns ! s) + fz\<rparr>]
              in ns1[t := (ns1 ! t)\<lparr>x := x (ns1 ! t) - fx,
                                    y := y (ns1 ! t) - fy,
                                    z := z (ns1 ! t) - fz\<rparr>]))"

definition layout_iteration :: "edge list \<Rightarrow> node list \<Rightarrow> node list" where
  "layout_iteration edges ns = fold spring_edge edges (repulsion_pass ns)"

text \<open>
  \<^verbatim>\<open>apply_layout\<close> returns nothing and works on the two lists it is given; the model
  returns both lists as they are after the call.
\<close>

definition apply_layout :: "node list \<Rightarrow> edge list \<Rightarrow> pystr \<Rightarrow> node list \<times> edge list" where
  "apply_layout ns edges layout_type =
     (if layout_type = str ''force''
      then ((layout_iteration edges ^^ ITERATIONS) ns, edges)
      else (ns, edges))"

section \<open>The serializer: \<^verbatim>\<open>export_json\<close>\<close>

text \<open>The four keys \<^verbatim>\<open>export_json\<close> adds to a node.\<close>

record metrics =
  network_centrality :: int
  foundation_efficiency :: real
  total_connections :: int
  connection_influence :: real

text \<open>
  \<^verbatim>\<open>max(n['req_direct'] for n in nodes if n['req_direct'] > 0)\<close>: Python's \<^verbatim>\<open>max\<close> of an
  empty sequence raises \<^verbatim>\<open>ValueError\<close>.
\<close>

definition max_positive_req :: "node list \<Rightarrow> error + int" where
  "max_positive_req ns =
     (case filter (\<lambda>r. r > 0) (map req_direct ns) of
        [] \<Rightarrow> Inl ValueError
      | r # rs \<Rightarrow> Inr (fold max rs r))"

text \<open>
  The body of the loop for one node.  The division of \<^verbatim>\<open>foundation_efficiency\<close> comes
  before the \<^verbatim>\<open>max\<close>; its divisor is positive for the counts the loader computes.  The
  conditional \<^verbatim>\<open>... if nodes else 0\<close> sits inside the loop over \<^verbatim>\<open>nodes\<close>, where the list
  is not empty, so the quotient is always the branch taken.
\<close>

definition node_metrics :: "node list \<Rightarrow> node \<Rightarrow> error + metrics" where
  "node_metrics ns n =
     (if 1 + dep_direct n = 0 then Inl ZeroDivisionError
      else
        (case max_positive_req ns of
           Inl e \<Rightarrow> Inl e
         | Inr m \<Rightarrow>
             Inr \<lparr>network_centrality = req_direct n * dep_direct n,
                  foundation_efficiency =
                    real_of_int (req_direct n) / real_of_int (1 + dep_direct n),
                  total_connections = req_direct n + dep_direct n,
                  connection_influence =
                    (real_of_int (req_direct n) * 0.7 + real_of_int (dep_direct n) * 0.3)
                      / real_of_int (max 1 m)\<rparr>))"

fun export_nodes :: "node list \<Rightarrow> node list \<Rightarrow> error + (node \<times> metrics) list" where
  "export_nodes ns [] = Inr []"
| "export_nodes ns (n # rest) =
     (case node_metrics ns n of
        Inl e \<Rightarrow> Inl e
      | Inr m \<Rightarrow>
         (case export_nodes ns rest of
            Inl e \<Rightarrow> Inl e
          | Inr out \<Rightarrow> Inr ((n, m) # out)))"

text \<open>
  The document written: the nodes with their metrics, the edges, and the two totals of
  the metadata.  An exception in the loop leaves \<^verbatim>\<open>export_json\<close> before anything is
  written.
\<close>

record document =
  doc_nodes :: "(node \<times> metrics) list"
  doc_edges :: "edge list"
  total_nodes :: nat
  total_edges :: nat

definition export_json :: "node list \<Rightarrow> edge list \<Rightarrow> error + document" where
  "export_json ns edges =
     (case export_nodes ns ns of
        Inl e \<Rightarrow> Inl e
      | Inr out \<Rightarrow>
          Inr \<lparr>doc_nodes = out, doc_edges = edges,
               total_nodes = length ns, total_edges = length edges\<rparr>)"

section \<open>Predicates used in the proofs\<close>

text \<open>
  What holds of the three dicts while the rows are read: every node is stored under its
  own name, and a relation text is only stored for a name that has a node.
\<close>

definition keyed :: "lstate \<Rightarrow> bool" where
  "keyed st \<longleftrightarrow>
     (\<forall>p \<in> set (nodes st). name (snd p) = fst p) \<and>
     fst ` set (temp_dependencies st) \<subseteq> fst ` set (nodes st) \<and>
     fst ` set (temp_requirements st) \<subseteq> fst ` set (nodes st)"

text \<open>
  The edges the second pass is to produce, following the specification: a depends-on
  cell of node \<open>n\<close> gives, for each of its targets that is a node, the edge from the
  target to \<open>n\<close>, in the order of the cells and of the targets; a required-by cell of
  node \<open>n\<close> gives, for each of its targets that is a node, the edge from \<open>n\<close> to the
  target.
\<close>

definition spec_dependency_edges :: "lstate \<Rightarrow> edge list" where
  "spec_dependency_edges st =
     concat (map (\<lambda>(n, raw). map (\<lambda>t. \<lparr>source = t, target = n\<rparr>)
                     (filter (\<lambda>t. in_nodes t (nodes st)) (parse_relations raw)))
               (temp_dependencies st))"

definition spec_requirement_edges :: "lstate \<Rightarrow> edge set" where
  "spec_requirement_edges st =
     {\<lparr>source = n, target = t\<rparr> | n t raw.
        (n, raw) \<in> set (temp_requirements st) \<and> t \<in> set (parse_relations raw) \<and>
        in_nodes t (nodes st)}"

section \<open>Example inputs\<close>

text \<open>
  A header with the name, the depends-on and the required-by column, the keys found in
  it, and four files under that header:
  \<^item> \<open>closure_file\<close>: \<open>A\<close> depends on \<open>B\<close> and on \<open>Z\<close>, which is no node; \<open>B\<close> is required by
    \<open>A\<close> and by \<open>C\<close>;
  \<^item> \<open>repeated_target_file\<close>: the depends-on cell of \<open>A\<close> names \<open>B\<close> twice;
  \<^item> \<open>short_row_file\<close>: a row with the name only, without the two other cells;
  \<^item> \<open>single_node_file\<close>: one node and no relation.
\<close>

definition example_columns :: columns where
  "example_columns =
     \<lparr>name_key = Some (str ''Nome da Area/Habilidade''),
      deps_key = Some (str ''Depende de''),
      reqs_key = Some (str ''Requerido por''),
      fam_key = None, int_key = None, mkt_key = None, req_score_key = None,
      master_score_key = None, req_indirect_key = None, dep_indirect_key = None\<rparr>"

definition example_header :: "pystr list" where
  "example_header = [str ''Nome da Area/Habilidade'', str ''Depende de'', str ''Requerido por'']"

definition closure_file :: csv_file where
  "closure_file =
     \<lparr>fieldnames = example_header,
      records = [[str ''A'', str ''B, Z'', str ''''],
                 [str ''B'', str '''', str ''A, C''],
                 [str ''C'', str '''', str '''']]\<rparr>"

definition repeated_target_file :: csv_file where
  "repeated_target_file =
     \<lparr>fieldnames = example_header,
      records = [[str ''A'', str ''B, B'', str ''''],
                 [str ''B'', str '''', str '''']]\<rparr>"

definition short_row_file :: csv_file where
  "short_row_file = \<lparr>fieldnames = example_header, records = [[str ''A'']]\<rparr>"

definition single_node_file :: csv_file where
  "single_node_file = \<lparr>fieldnames = example_header, records = [[str ''A'', str '''', str '''']]\<rparr>"

section \<open>Properties of the loader\<close>

subsection \<open>Dicts\<close>

lemma map_of_dict_set: "map_of (dict_set d k v) = (map_of d)(k \<mapsto> v)"
  by (induction d k v rule: dict_set.induct) auto

lemma keys_dict_set: "fst ` set (dict_set d k v) = insert k (fst ` set d)"
  by (induction d k v rule: dict_set.induct) auto

lemma set_dict_set: "p \<in> set (dict_set d k v) \<Longrightarrow> p = (k, v) \<or> p \<in> set d"
  by (induction d k v rule: dict_set.induct) (auto split: if_splits)

lemma in_nodes_keys: "in_nodes nm ns \<longleftrightarrow> nm \<in> fst ` set ns"
  by (simp add: in_nodes_def map_of_eq_None_iff)

subsection \<open>The first pass keeps relation texts under names of nodes\<close>

lemma keyed_empty: "keyed empty_state"
  by (simp add: keyed_def empty_state_def)

lemma store_relation_keys:
  assumes "store_relation key row nm temp = Inr temp'"
  shows "fst ` set temp' \<subseteq> insert nm (fst ` set temp)"
proof -
  from assms have "temp' = temp \<or> (\<exists>raw. temp' = dict_set temp nm raw)"
    by (auto simp: store_relation_def split: sum.splits if_splits)
  then show ?thesis
  proof
    assume "temp' = temp"
    then show ?thesis by blast
  next
    assume "\<exists>raw. temp' = dict_set temp nm raw"
    then obtain raw where "temp' = dict_set temp nm raw" ..
    then show ?thesis by (simp add: keys_dict_set)
  qed
qed

lemma name_new_node: "name (new_node cols pf u k nm row) = nm"
  by (simp add: new_node_def)

lemma keyed_load_row:
  assumes "keyed st" "load_row cols pf u st row = Inr st'"
  shows "keyed st'"
proof (cases "stripped_cell (name_key cols) row")
  case (Inl e)
  with assms show ?thesis by (simp add: load_row_def)
next
  case (Inr nm)
  show ?thesis
  proof (cases "nm = []")
    case True
    with assms Inr show ?thesis by (simp add: load_row_def)
  next
    case False
    from assms(2) Inr False obtain deps reqs where
      d: "store_relation (deps_key cols) row nm (temp_dependencies st) = Inr deps" and
      r: "store_relation (reqs_key cols) row nm (temp_requirements st) = Inr reqs" and
      st': "st' = \<lparr>nodes = dict_set (nodes st) nm (new_node cols pf u (draws st) nm row),
                  temp_dependencies = deps, temp_requirements = reqs, draws = draws st + 3\<rparr>"
      by (auto simp: load_row_def split: sum.splits)
    have keys: "fst ` set (nodes st') = insert nm (fst ` set (nodes st))"
      by (simp add: st' keys_dict_set)
    have n: "\<forall>p \<in> set (nodes st'). name (snd p) = fst p"
    proof
      fix p assume "p \<in> set (nodes st')"
      then have "p = (nm, new_node cols pf u (draws st) nm row) \<or> p \<in> set (nodes st)"
        by (simp add: st' set_dict_set)
      then show "name (snd p) = fst p"
        using assms(1) by (auto simp: keyed_def name_new_node)
    qed
    from assms(1) have sub:
      "fst ` set (temp_dependencies st) \<subseteq> fst ` set (nodes st)"
      "fst ` set (temp_requirements st) \<subseteq> fst ` set (nodes st)"
      by (simp_all add: keyed_def)
    have "fst ` set deps \<subseteq> insert nm (fst ` set (temp_dependencies st))"
      by (rule store_relation_keys[OF d])
    also have "\<dots> \<subseteq> insert nm (fst ` set (nodes st))"
      using sub(1) by (rule insert_mono)
    finally have kd: "fst ` set (temp_dependencies st') \<subseteq> fst ` set (nodes st')"
      by (simp add: keys) (simp add: st')
    have "fst ` set reqs \<subseteq> insert nm (fst ` set (temp_requirements st))"
      by (rule store_relation_keys[OF r])
    also have "\<dots> \<subseteq> insert nm (fst ` set (nodes st))"
      using sub(2) by (rule insert_mono)
    finally have kr: "fst ` set (temp_requirements st') \<subseteq> fst ` set (nodes st')"
      by (simp add: keys) (simp add: st')
    show ?thesis
      unfolding keyed_def using n kd kr by blast
  qed
qed

lemma keyed_load_rows:
  "keyed st \<Longrightarrow> load_rows cols pf u st rows = Inr st' \<Longrightarrow> keyed st'"
proof (induction rows arbitrary: st)
  case Nil
  then show ?case by simp
next
  case (Cons row rows)
  then show ?case
    by (cases "load_row cols pf u st row") (auto dest: keyed_load_row)
qed

subsection \<open>The second pass\<close>

lemma edge_eq_iff: "(e :: edge) = \<lparr>source = s, target = t\<rparr> \<longleftrightarrow> source e = s \<and> target e = t"
  by (cases e) auto

lemma has_edge_iff:
  "list_ex (\<lambda>e. source e = s \<and> target e = t) es \<longleftrightarrow> \<lparr>source = s, target = t\<rparr> \<in> set es"
proof -
  have "(\<exists>e \<in> set es. source e = s \<and> target e = t) \<longleftrightarrow> (\<exists>e \<in> set es. e = \<lparr>source = s, target = t\<rparr>)"
    by (simp only: edge_eq_iff)
  then show ?thesis by (simp add: list_ex_iff)
qed

lemma dependency_targets_eq:
  "dependency_targets ns s ts es =
     es @ map (\<lambda>t. \<lparr>source = t, target = s\<rparr>) (filter (\<lambda>t. in_nodes t ns) ts)"
  by (induction ts arbitrary: es) auto

lemma process_dependencies_eq:
  "process_dependencies ns temp es =
     es @ concat (map (\<lambda>(n, raw). map (\<lambda>t. \<lparr>source = t, target = n\<rparr>)
                        (filter (\<lambda>t. in_nodes t ns) (parse_relations raw))) temp)"
  by (induction temp arbitrary: es) (auto simp: dependency_targets_eq)

lemma requirement_targets_prefix:
  "\<exists>new. requirement_targets ns s ts es = es @ new \<and> distinct new \<and> set new \<inter> set es = {}"
proof (induction ts arbitrary: es)
  case Nil
  then show ?case by simp
next
  case (Cons t ts)
  let ?e = "\<lparr>source = s, target = t\<rparr>"
  show ?case
  proof (cases "in_nodes t ns \<and> ?e \<notin> set es")
    case True
    from Cons.IH[of "es @ [?e]"] obtain new where
      n: "requirement_targets ns s ts (es @ [?e]) = (es @ [?e]) @ new" "distinct new"
         "set new \<inter> set (es @ [?e]) = {}" by blast
    note le = has_edge_iff[of s t es]
    from True n show ?thesis
      by (intro exI[of _ "?e # new"]) (auto simp: le)
  next
    case False
    note le = has_edge_iff[of s t es]
    from False Cons.IH[of es] show ?thesis
      by (auto simp: le)
  qed
qed

lemma requirement_targets_set:
  "set (requirement_targets ns s ts es) =
     set es \<union> {\<lparr>source = s, target = t\<rparr> | t. t \<in> set ts \<and> in_nodes t ns}"
proof (induction ts arbitrary: es)
  case Nil
  then show ?case by simp
next
  case (Cons t ts)
  note le = has_edge_iff[of s t es]
  show ?case
    by (auto simp: Cons.IH le)
qed


lemma process_requirements_prefix:
  "\<exists>new. process_requirements ns temp es = es @ new \<and> distinct new \<and> set new \<inter> set es = {}"
proof (induction temp arbitrary: es)
  case Nil
  then show ?case by simp
next
  case (Cons p temp)
  obtain n raw where p: "p = (n, raw)" by (cases p)
  obtain n1 where n1: "requirement_targets ns n (parse_relations raw) es = es @ n1"
      "distinct n1" "set n1 \<inter> set es = {}"
    using requirement_targets_prefix by blast
  obtain n2 where n2: "process_requirements ns temp (es @ n1) = (es @ n1) @ n2"
      "distinct n2" "set n2 \<inter> set (es @ n1) = {}"
    using Cons.IH by blast
  have "process_requirements ns (p # temp) es = es @ (n1 @ n2)"
    by (simp add: p n1(1) n2(1))
  moreover have "distinct (n1 @ n2)"
    using n1(2) n2(2,3) by auto
  moreover have "set (n1 @ n2) \<inter> set es = {}"
    using n1(3) n2(3) by auto
  ultimately show ?case by blast
qed

lemma process_requirements_set:
  "set (process_requirements ns temp es) =
     set es \<union> {\<lparr>source = n, target = t\<rparr> | n t raw.
                 (n, raw) \<in> set temp \<and> t \<in> set (parse_relations raw) \<and> in_nodes t ns}"
proof (induction temp arbitrary: es)
  case Nil
  then show ?case by simp
next
  case (Cons p temp)
  obtain n raw where p: "p = (n, raw)" by (cases p)
  show ?case
    unfolding p process_requirements.simps Cons.IH requirement_targets_set
    by auto
qed

text \<open>
  C4.  In the second pass every target of a depends-on cell of node \<open>n\<close> that is a node
  gives the edge from the target to \<open>n\<close>, one edge for each occurrence and in order; the
  required-by pass then appends, after these, each edge from \<open>n\<close> to a target of a
  required-by cell of \<open>n\<close> that is a node, once, and only if the list does not have that
  edge yet.
\<close>

theorem second_pass_edges:
  "\<exists>new. build_edges st = spec_dependency_edges st @ new \<and> distinct new \<and>
         set new = spec_requirement_edges st - set (spec_dependency_edges st)"
proof -
  let ?D = "process_dependencies (nodes st) (temp_dependencies st) []"
  have D: "?D = spec_dependency_edges st"
    by (simp add: process_dependencies_eq spec_dependency_edges_def)
  obtain new where new: "build_edges st = ?D @ new" "distinct new" "set new \<inter> set ?D = {}"
    unfolding build_edges_def using process_requirements_prefix by blast
  have "set (build_edges st) = set ?D \<union> spec_requirement_edges st"
    by (simp add: build_edges_def process_requirements_set spec_requirement_edges_def)
  with new(1,3) have "set new = spec_requirement_edges st - set ?D"
    by auto
  with new(1,2) show ?thesis
    unfolding D by blast
qed

lemma build_edges_closed:
  assumes "keyed st" "e \<in> set (build_edges st)"
  shows "source e \<in> fst ` set (nodes st) \<and> target e \<in> fst ` set (nodes st)"
proof -
  have s: "set (build_edges st) = set (spec_dependency_edges st) \<union> spec_requirement_edges st"
    by (simp add: build_edges_def process_requirements_set spec_requirement_edges_def
        process_dependencies_eq spec_dependency_edges_def)
  from assms(1) have sub:
    "fst ` set (temp_dependencies st) \<subseteq> fst ` set (nodes st)"
    "fst ` set (temp_requirements st) \<subseteq> fst ` set (nodes st)"
    by (simp_all add: keyed_def)
  from assms(2) s consider "e \<in> set (spec_dependency_edges st)" | "e \<in> spec_requirement_edges st"
    by blast
  then show ?thesis
  proof cases
    case 1
    then obtain n raw t where "(n, raw) \<in> set (temp_dependencies st)"
      "in_nodes t (nodes st)" "e = \<lparr>source = t, target = n\<rparr>"
      by (auto simp: spec_dependency_edges_def)
    moreover from this(1) sub(1) have "n \<in> fst ` set (nodes st)"
      by force
    ultimately show ?thesis
      by (simp add: in_nodes_keys)
  next
    case 2
    then obtain n raw t where "(n, raw) \<in> set (temp_requirements st)"
      "in_nodes t (nodes st)" "e = \<lparr>source = n, target = t\<rparr>"
      by (auto simp: spec_requirement_edges_def)
    moreover from this(1) sub(2) have "n \<in> fst ` set (nodes st)"
      by force
    ultimately show ?thesis
      by (simp add: in_nodes_keys)
  qed
qed

lemma name_count_direct: "name (count_direct es n) = name n"
  by (simp add: count_direct_def)

lemma keyed_names:
  assumes "keyed st"
  shows "name ` set (map (count_direct es) (map snd (nodes st))) = fst ` set (nodes st)"
proof -
  from assms have "\<forall>p \<in> set (nodes st). name (snd p) = fst p"
    by (simp add: keyed_def)
  then show ?thesis
    by (force simp: name_count_direct image_iff)
qed

text \<open>
  C5.  Every edge that \<^verbatim>\<open>load_network\<close> returns has its source and its target among the
  names of the nodes it returns.
\<close>

theorem load_network_closed:
  assumes "load_network cols pf u file = Inr (ns, es)" and "e \<in> set es"
  shows "source e \<in> name ` set ns \<and> target e \<in> name ` set ns"
proof -
  from assms(1) obtain f st where
    st: "load_rows cols pf u empty_state (dict_reader f) = Inr st" and
    ns: "ns = map (count_direct (build_edges st)) (map snd (nodes st))" and
    es: "es = build_edges st"
    by (auto simp: load_network_def split: option.splits sum.splits)
  have k: "keyed st"
    using keyed_empty st by (rule keyed_load_rows)
  from build_edges_closed[OF k] assms(2) show ?thesis
    unfolding ns es keyed_names[OF k] by blast
qed

subsection \<open>The loader on the example files\<close>

lemmas loader_eval =
  load_network_def dict_reader_def dict_row_def str_def empty_state_def load_row_def
  stripped_cell_def usable_def get_cell_def store_relation_def strip_def isspace_def
  build_edges_def parse_relations_def in_nodes_def ext_tail_def Let_def example_columns_def
  example_header_def

lemma closure_load:
  "\<exists>ns. load_network example_columns (\<lambda>s. None) (\<lambda>k. 0) (Some closure_file) =
     Inr (ns, [\<lparr>source = str ''B'', target = str ''A''\<rparr>,
               \<lparr>source = str ''B'', target = str ''C''\<rparr>])"
  by (simp add: loader_eval closure_file_def)

theorem load_network_closed_witness:
  "\<exists>ns. load_network example_columns (\<lambda>s. None) (\<lambda>k. 0) (Some closure_file) =
          Inr (ns, [\<lparr>source = str ''B'', target = str ''A''\<rparr>,
                    \<lparr>source = str ''B'', target = str ''C''\<rparr>]) \<and>
        str ''B'' \<in> name ` set ns \<and> str ''C'' \<in> name ` set ns"
proof -
  obtain ns where L:
    "load_network example_columns (\<lambda>s. None) (\<lambda>k. 0) (Some closure_file) =
       Inr (ns, [\<lparr>source = str ''B'', target = str ''A''\<rparr>,
                 \<lparr>source = str ''B'', target = str ''C''\<rparr>])"
    using closure_load by blast
  from load_network_closed[OF L, of "\<lparr>source = str ''B'', target = str ''C''\<rparr>"]
  have "str ''B'' \<in> name ` set ns \<and> str ''C'' \<in> name ` set ns"
    by simp
  with L show ?thesis by blast
qed

text \<open>
  C1.  The depends-on pass appends without looking at the edge list, so a target named
  twice in one depends-on cell gives the same edge twice: on \<open>repeated_target_file\<close> the
  loader returns the edge from \<open>B\<close> to \<open>A\<close> two times.
\<close>

theorem repeated_target_duplicates:
  "\<exists>ns. load_network example_columns pyfloat uniform (Some repeated_target_file) =
     Inr (ns, [\<lparr>source = str ''B'', target = str ''A''\<rparr>,
               \<lparr>source = str ''B'', target = str ''A''\<rparr>])"
  by (simp add: loader_eval repeated_target_file_def)

text \<open>
  C6.  The file of \<open>short_row_file\<close> exists, and the loader raises \<^verbatim>\<open>AttributeError\<close> on
  it: the depends-on cell of the short row is \<^verbatim>\<open>None\<close>, and \<^verbatim>\<open>strip\<close> is called on it.
\<close>

theorem short_row_raises:
  "load_network example_columns pyfloat uniform (Some short_row_file) = Inl AttributeError"
  by (simp add: loader_eval short_row_file_def)

section \<open>Properties of the serializer\<close>

text \<open>
  C2.  On the graph of \<open>single_node_file\<close>, one node and no edge, no node has a positive
  required-by count, and \<^verbatim>\<open>export_json\<close> raises \<^verbatim>\<open>ValueError\<close>: the \<^verbatim>\<open>max\<close> over the
  positive counts is the \<^verbatim>\<open>max\<close> of an empty sequence.
\<close>

theorem no_edges_export_raises:
  "\<exists>ns es. load_network example_columns pyfloat uniform (Some single_node_file) = Inr (ns, es) \<and>
     export_json ns es = Inl ValueError"
  by (simp add: loader_eval single_node_file_def export_json_def node_metrics_def
      max_positive_req_def count_direct_def new_node_def)

section \<open>Properties of the parsers\<close>

text \<open>
  C7.  The relation parser on the input of the specification: the comma inside the
  parentheses of the third target does not separate, and the annotation is removed from
  the second target only.
\<close>

theorem parse_relations_example:
  "parse_relations (str ''A, B (foo%20bar.csv), C(x, y)'') =
     [str ''A'', str ''B'', str ''C(x, y)'']"
  by (simp add: parse_relations_def str_def strip_def isspace_def ext_tail_def)

text \<open>
  C8.  The rating of the exact label with the trophy (code point 127942) is 5, the rating
  of three question marks is 0, and a text that contains the fire symbol (code point
  128293) and matches no key exactly is rated 4.
\<close>

theorem emoji_to_num_examples:
  "emoji_to_num (Some (127942 # str '' Profissional'')) = 5 \<and>
   emoji_to_num (Some (str ''???'')) = 0 \<and>
   emoji_to_num (Some (str ''something '' @ 128293 # str '' something'')) = 4"
  by (simp add: emoji_to_num_def fam_map_def int_map_def str_def strip_def isspace_def)

end
